theory Spec2Isabelle
  imports Complex_Main "HOL-Library.AList"
begin

section \<open>The behavioural tracker of \<open>static/js/admin.js\<close>\<close>

text \<open>
  The tracker is the second immediately-invoked function of \<open>admin.js\<close>. Its
  module-level variables (\<open>behavioralData\<close>, \<open>isTracking\<close>, the timer handle, the last
  mouse event, the keystroke start time and the four total counters) become one record
  that every handler takes and returns. \<open>Date.now()\<close> is an argument of the handler
  that reads it. JavaScript numbers that hold coordinates and velocities are
  idealised as reals; timestamps, buttons and key codes are integers.
\<close>

subsection \<open>Configuration\<close>

definition dataCollectionInterval :: nat where "dataCollectionInterval = 5000"
definition maxMouseEvents :: nat where "maxMouseEvents = 100"
definition maxClickEvents :: nat where "maxClickEvents = 50"
definition maxKeystrokeEvents :: nat where "maxKeystrokeEvents = 100"
definition maxScrollEvents :: nat where "maxScrollEvents = 50"
definition apiEndpoint :: string where "apiEndpoint = ''/api/behavioral_data''"
definition sessionIdKey :: string where "sessionIdKey = ''stealth_captcha_session''"

subsection \<open>JavaScript values\<close>

text \<open>
  The result of a division of two numbers: the quotient when the divisor is not zero,
  otherwise an infinity of the dividend's sign, or \<open>NaN\<close> for \<open>0 / 0\<close>.
\<close>

datatype jsnumber = Finite real | PosInfinity | NegInfinity | NaN

definition jsdiv :: "real \<Rightarrow> real \<Rightarrow> jsnumber" where
  "jsdiv a b =
     (if b \<noteq> 0 then Finite (a / b)
      else if a > 0 then PosInfinity
      else if a < 0 then NegInfinity
      else NaN)"

text \<open>Decoded JSON, and the objects handed to a continuation.\<close>

datatype jsvalue =
    JNull
  | JBool bool
  | JNum int
  | JStr string
  | JArr "jsvalue list"
  | JObj "(string \<times> jsvalue) list"

text \<open>A string is truthy unless it is empty; \<open>null\<close> is \<open>None\<close>.\<close>

definition truthy_str :: "string option \<Rightarrow> bool" where
  "truthy_str v = (case v of None \<Rightarrow> False | Some t \<Rightarrow> t \<noteq> [])"

text \<open>A number is truthy unless it is \<open>undefined\<close> or zero.\<close>

definition truthy_int :: "int option \<Rightarrow> bool" where
  "truthy_int v = (case v of None \<Rightarrow> False | Some t \<Rightarrow> t \<noteq> 0)"

definition truthy_real :: "real option \<Rightarrow> bool" where
  "truthy_real v = (case v of None \<Rightarrow> False | Some t \<Rightarrow> t \<noteq> 0)"

text \<open>\<open>a || null\<close> on a string.\<close>

definition or_null :: "string \<Rightarrow> string option" where
  "or_null t = (if t = [] then None else Some t)"

definition lower_char :: "char \<Rightarrow> char" where
  "lower_char c =
     (if 65 \<le> (of_char c :: nat) \<and> (of_char c :: nat) \<le> 90
      then char_of (of_char c + (32 :: nat)) else c)"

definition toLowerCase :: "string \<Rightarrow> string" where
  "toLowerCase t = map lower_char t"

text \<open>
  \<open>xs.slice(-n)\<close> for a non-negative \<open>n\<close>: the last \<open>n\<close> elements, the whole array
  when it is shorter, and also the whole array for \<open>n = 0\<close> (\<open>slice(-0)\<close> is \<open>slice(0)\<close>).
\<close>

definition slice_neg :: "nat \<Rightarrow> 'a list \<Rightarrow> 'a list" where
  "slice_neg n xs = (if n = 0 then xs else drop (length xs - n) xs)"

text \<open>\<open>xs.shift()\<close>: the first element is removed.\<close>

definition shift :: "'a list \<Rightarrow> 'a list" where
  "shift xs = tl xs"

text \<open>
  Decimal rendering of a number inside a string concatenation. The first argument of
  \<open>digits\<close> says whether the number is below ten, so that each equation applies only
  once the comparison has been decided.
\<close>

definition digit_char :: "nat \<Rightarrow> char" where
  "digit_char d = char_of (48 + d)"

function digits :: "bool \<Rightarrow> nat \<Rightarrow> string" where
  "digits True n = [digit_char n]"
| "digits False n = digits (n div 10 < 10) (n div 10) @ [digit_char (n mod 10)]"
  by pat_completeness auto
termination
  by (relation "measure (\<lambda>(b, n). if b then 0 else n + 1)") auto

definition decimal :: "nat \<Rightarrow> string" where
  "decimal n = digits (n < 10) n"

definition show_int :: "int \<Rightarrow> string" where
  "show_int i = (if i < 0 then CHR ''-'' # decimal (nat (- i)) else decimal (nat i))"

subsection \<open>Host events and recorded entries\<close>

text \<open>
  An element of the page: \<open>node\<close> is its identity (the object on which \<open>handleMouseDown\<close>
  stores \<open>_mouseDownTime\<close>), the other fields are the attributes the handlers read.
\<close>

record dom_target =
  node :: nat
  tagName :: string
  elemId :: string
  className :: string

datatype scroll_target = Document | Element dom_target

record touch =
  touchX :: real
  touchY :: real

datatype host_event =
    MouseMove real real dom_target
  | Click real real int dom_target
  | MouseDown real real int dom_target
  | MouseUp real real int dom_target
  | KeyDown string int bool bool bool bool
  | KeyUp string int
  | Scroll real real scroll_target
  | Wheel real real real int
  | Focus
  | Blur
  | VisibilityChange bool string
  | TouchStart "touch list"
  | TouchMove "touch list"
  | TouchEnd nat

datatype event_type =
    mousemove | click | mousedown | mouseup | keydown | keyup | scroll | wheel
  | focus | blur | visibilitychange | touchstart | touchmove | touchend

fun type_of_event :: "host_event \<Rightarrow> event_type" where
  "type_of_event (MouseMove _ _ _) = mousemove"
| "type_of_event (Click _ _ _ _) = click"
| "type_of_event (MouseDown _ _ _ _) = mousedown"
| "type_of_event (MouseUp _ _ _ _) = mouseup"
| "type_of_event (KeyDown _ _ _ _ _ _) = keydown"
| "type_of_event (KeyUp _ _) = keyup"
| "type_of_event (Scroll _ _ _) = scroll"
| "type_of_event (Wheel _ _ _ _) = wheel"
| "type_of_event Focus = focus"
| "type_of_event Blur = blur"
| "type_of_event (VisibilityChange _ _) = visibilitychange"
| "type_of_event (TouchStart _) = touchstart"
| "type_of_event (TouchMove _) = touchmove"
| "type_of_event (TouchEnd _) = touchend"

record mouse_entry =
  m_x :: real
  m_y :: real
  m_timestamp :: int
  m_target :: string
  m_velocity :: "real option"
  m_acceleration :: "jsnumber option"

datatype click_entry =
    ClickEntry (c_x: real) (c_y: real) (c_timestamp: int) (c_button: int)
      (c_target: string) (c_targetId: "string option") (c_targetClass: "string option")
  | MouseDownEntry (c_x: real) (c_y: real) (c_timestamp: int) (c_button: int)
  | MouseUpEntry (c_x: real) (c_y: real) (c_timestamp: int) (c_button: int)
      (c_duration: "int option")

datatype key_entry =
    KeyDownEntry (k_key: string) (k_keyCode: int) (k_timestamp: int)
      (k_ctrlKey: bool) (k_altKey: bool) (k_shiftKey: bool) (k_metaKey: bool)
  | KeyUpEntry (k_key: string) (k_keyCode: int) (k_timestamp: int) (k_duration: int)

datatype scroll_entry =
    ScrollEntry (s_scrollX: real) (s_scrollY: real) (s_timestamp: int) (s_target: string)
  | WheelEntry (s_deltaX: real) (s_deltaY: real) (s_deltaZ: real) (s_deltaMode: int)
      (s_timestamp: int)

datatype window_entry = FocusEntry int | BlurEntry int

record visibility_entry =
  v_hidden :: bool
  v_timestamp :: int
  v_visibilityState :: string

datatype touch_entry =
    TouchStartEntry real real int nat
  | TouchMoveEntry real real int nat
  | TouchEndEntry int nat

record fingerprint =
  userAgent :: string
  screenResolution :: string
  timezone :: string
  language :: string
  platform :: string
  cookieEnabled :: bool
  doNotTrack :: "string option"
  onlineStatus :: bool
  touchSupport :: bool

subsection \<open>The tracker's state\<close>

text \<open>
  \<open>windowEvents\<close>, \<open>visibilityEvents\<close> and \<open>touchEvents\<close> do not exist until their first
  event (\<open>None\<close>). \<open>mouseDownTimes\<close> holds the \<open>_mouseDownTime\<close> fields stored on page
  elements, by node. \<open>listeners\<close>, \<open>intervals\<close>, \<open>nextInterval\<close> and \<open>localStorage\<close>
  are the parts of the host the tracker changes: the registered event listeners, the
  running interval timers, the next timer handle and the stored session identifier.
\<close>

record tracker =
  sessionId :: "string option"
  mouseMovements :: "mouse_entry list"
  clickPatterns :: "click_entry list"
  keystrokePatterns :: "key_entry list"
  scrollPatterns :: "scroll_entry list"
  windowEvents :: "window_entry list option"
  visibilityEvents :: "visibility_entry list option"
  touchEvents :: "touch_entry list option"
  deviceFingerprint :: "fingerprint option"
  startTime :: int
  isTracking :: bool
  dataCollectionTimer :: "nat option"
  lastMouseEvent :: "mouse_entry option"
  keystrokeStartTime :: "int option"
  mouseMovementTotal :: nat
  clickPatternTotal :: nat
  keystrokePatternTotal :: nat
  scrollPatternTotal :: nat
  mouseDownTimes :: "(nat \<times> int) list"
  listeners :: "event_type set"
  intervals :: "nat list"
  nextInterval :: nat
  localStorage :: "string option"

definition initial :: "int \<Rightarrow> tracker" where
  "initial t0 =
     \<lparr>sessionId = None, mouseMovements = [], clickPatterns = [], keystrokePatterns = [],
      scrollPatterns = [], windowEvents = None, visibilityEvents = None, touchEvents = None,
      deviceFingerprint = None, startTime = t0, isTracking = False,
      dataCollectionTimer = None, lastMouseEvent = None, keystrokeStartTime = None,
      mouseMovementTotal = 0, clickPatternTotal = 0, keystrokePatternTotal = 0,
      scrollPatternTotal = 0, mouseDownTimes = [], listeners = {}, intervals = [],
      nextInterval = 1, localStorage = None\<rparr>"

subsection \<open>Event handlers\<close>

text \<open>
  \<open>Math.sqrt(Math.pow(dx, 2) + Math.pow(dy, 2))\<close>. The real square root has no
  executable equation, so concrete distances are computed by rewriting.
\<close>

definition euclidean :: "real \<Rightarrow> real \<Rightarrow> real" where
  "euclidean dx dy = sqrt (dx\<^sup>2 + dy\<^sup>2)"

declare euclidean_def [code del]

definition handleMouseMove :: "int \<Rightarrow> real \<Rightarrow> real \<Rightarrow> dom_target \<Rightarrow> tracker \<Rightarrow> tracker" where
  "handleMouseMove now x y tgt s =
     (let mouseEvent0 =
            \<lparr>m_x = x, m_y = y, m_timestamp = now, m_target = toLowerCase (tagName tgt),
             m_velocity = None, m_acceleration = None\<rparr>;
          mouseEvent =
            (case lastMouseEvent s of
               None \<Rightarrow> mouseEvent0
             | Some l \<Rightarrow>
                 (let timeDiff = now - m_timestamp l;
                      distance = euclidean (x - m_x l) (y - m_y l);
                      v = (if timeDiff > 0 then distance / real_of_int timeDiff else 0);
                      a = (if truthy_real (m_velocity l)
                           then jsdiv (v - the (m_velocity l)) (real_of_int timeDiff)
                           else Finite 0)
                  in mouseEvent0\<lparr>m_velocity := Some v, m_acceleration := Some a\<rparr>));
          pushed = mouseMovements s @ [mouseEvent]
      in s\<lparr>mouseMovements := (if length pushed > maxMouseEvents then shift pushed else pushed),
           lastMouseEvent := Some mouseEvent,
           mouseMovementTotal := mouseMovementTotal s + 1\<rparr>)"

definition handleClick :: "int \<Rightarrow> real \<Rightarrow> real \<Rightarrow> int \<Rightarrow> dom_target \<Rightarrow> tracker \<Rightarrow> tracker" where
  "handleClick now x y b tgt s =
     (let clickEvent = ClickEntry x y now b (toLowerCase (tagName tgt))
                         (or_null (elemId tgt)) (or_null (className tgt));
          pushed = clickPatterns s @ [clickEvent]
      in s\<lparr>clickPatterns := (if length pushed > maxClickEvents then shift pushed else pushed),
           clickPatternTotal := clickPatternTotal s + 1\<rparr>)"

definition handleMouseDown :: "int \<Rightarrow> real \<Rightarrow> real \<Rightarrow> int \<Rightarrow> dom_target \<Rightarrow> tracker \<Rightarrow> tracker" where
  "handleMouseDown now x y b tgt s =
     s\<lparr>mouseDownTimes := AList.update (node tgt) now (mouseDownTimes s),
       clickPatterns := clickPatterns s @ [MouseDownEntry x y now b]\<rparr>"

definition handleMouseUp :: "int \<Rightarrow> real \<Rightarrow> real \<Rightarrow> int \<Rightarrow> dom_target \<Rightarrow> tracker \<Rightarrow> tracker" where
  "handleMouseUp now x y b tgt s =
     (let down = map_of (mouseDownTimes s) (node tgt)
      in if truthy_int down
         then s\<lparr>mouseDownTimes := AList.delete (node tgt) (mouseDownTimes s),
                clickPatterns := clickPatterns s @ [MouseUpEntry x y now b (Some (now - the down))]\<rparr>
         else s\<lparr>clickPatterns := clickPatterns s @ [MouseUpEntry x y now b None]\<rparr>)"

text \<open>The key policy of both keyboard handlers.\<close>

definition anonymize :: "string \<Rightarrow> string" where
  "anonymize k = (if length k = 1 then ''char'' else k)"

definition handleKeyDown ::
  "int \<Rightarrow> string \<Rightarrow> int \<Rightarrow> bool \<Rightarrow> bool \<Rightarrow> bool \<Rightarrow> bool \<Rightarrow> tracker \<Rightarrow> tracker" where
  "handleKeyDown now k code ctrl alt shiftk meta s =
     s\<lparr>keystrokeStartTime := Some now,
       keystrokePatterns :=
         keystrokePatterns s @ [KeyDownEntry (anonymize k) code now ctrl alt shiftk meta],
       keystrokePatternTotal := keystrokePatternTotal s + 1\<rparr>"

definition handleKeyUp :: "int \<Rightarrow> string \<Rightarrow> int \<Rightarrow> tracker \<Rightarrow> tracker" where
  "handleKeyUp now k code s =
     (let d = (if truthy_int (keystrokeStartTime s) then now - the (keystrokeStartTime s) else 0);
          pushed = keystrokePatterns s @ [KeyUpEntry (anonymize k) code now d]
      in s\<lparr>keystrokePatterns :=
             (if length pushed > maxKeystrokeEvents then shift pushed else pushed),
           keystrokePatternTotal := keystrokePatternTotal s + 1\<rparr>)"

definition handleScroll :: "int \<Rightarrow> real \<Rightarrow> real \<Rightarrow> scroll_target \<Rightarrow> tracker \<Rightarrow> tracker" where
  "handleScroll now sx sy tgt s =
     (let scrollEvent = ScrollEntry sx sy now
            (case tgt of Document \<Rightarrow> ''document'' | Element e \<Rightarrow> toLowerCase (tagName e));
          pushed = scrollPatterns s @ [scrollEvent]
      in s\<lparr>scrollPatterns := (if length pushed > maxScrollEvents then shift pushed else pushed),
           scrollPatternTotal := scrollPatternTotal s + 1\<rparr>)"

definition handleWheel :: "int \<Rightarrow> real \<Rightarrow> real \<Rightarrow> real \<Rightarrow> int \<Rightarrow> tracker \<Rightarrow> tracker" where
  "handleWheel now dx dy dz mode s =
     s\<lparr>scrollPatterns := scrollPatterns s @ [WheelEntry dx dy dz mode now],
       scrollPatternTotal := scrollPatternTotal s + 1\<rparr>"

definition or_empty :: "'a list option \<Rightarrow> 'a list" where
  "or_empty v = (case v of None \<Rightarrow> [] | Some xs \<Rightarrow> xs)"

definition handleWindowFocus :: "int \<Rightarrow> tracker \<Rightarrow> tracker" where
  "handleWindowFocus now s =
     s\<lparr>windowEvents := Some (or_empty (windowEvents s) @ [FocusEntry now])\<rparr>"

definition handleWindowBlur :: "int \<Rightarrow> tracker \<Rightarrow> tracker" where
  "handleWindowBlur now s =
     s\<lparr>windowEvents := Some (or_empty (windowEvents s) @ [BlurEntry now])\<rparr>"

definition handleVisibilityChange :: "int \<Rightarrow> bool \<Rightarrow> string \<Rightarrow> tracker \<Rightarrow> tracker" where
  "handleVisibilityChange now hid vstate s =
     s\<lparr>visibilityEvents :=
         Some (or_empty (visibilityEvents s) @
           [\<lparr>v_hidden = hid, v_timestamp = now, v_visibilityState = vstate\<rparr>])\<rparr>"

definition handleTouchStart :: "int \<Rightarrow> touch list \<Rightarrow> tracker \<Rightarrow> tracker" where
  "handleTouchStart now ts s =
     (case ts of
        [] \<Rightarrow> s
      | t # _ \<Rightarrow>
          s\<lparr>touchEvents :=
              Some (or_empty (touchEvents s) @
                [TouchStartEntry (touchX t) (touchY t) now (length ts)])\<rparr>)"

definition handleTouchMove :: "int \<Rightarrow> touch list \<Rightarrow> tracker \<Rightarrow> tracker" where
  "handleTouchMove now ts s =
     (case ts of
        [] \<Rightarrow> s
      | t # _ \<Rightarrow>
          s\<lparr>touchEvents :=
              Some (or_empty (touchEvents s) @
                [TouchMoveEntry (touchX t) (touchY t) now (length ts)])\<rparr>)"

definition handleTouchEnd :: "int \<Rightarrow> nat \<Rightarrow> tracker \<Rightarrow> tracker" where
  "handleTouchEnd now n s =
     s\<lparr>touchEvents := Some (or_empty (touchEvents s) @ [TouchEndEntry now n])\<rparr>"

text \<open>The handler that \<open>setupEventListeners\<close> registers for each type of event.\<close>

fun handler :: "int \<Rightarrow> host_event \<Rightarrow> tracker \<Rightarrow> tracker" where
  "handler now (MouseMove x y tgt) s = handleMouseMove now x y tgt s"
| "handler now (Click x y b tgt) s = handleClick now x y b tgt s"
| "handler now (MouseDown x y b tgt) s = handleMouseDown now x y b tgt s"
| "handler now (MouseUp x y b tgt) s = handleMouseUp now x y b tgt s"
| "handler now (KeyDown k code ctrl alt shiftk meta) s =
     handleKeyDown now k code ctrl alt shiftk meta s"
| "handler now (KeyUp k code) s = handleKeyUp now k code s"
| "handler now (Scroll sx sy tgt) s = handleScroll now sx sy tgt s"
| "handler now (Wheel dx dy dz mode) s = handleWheel now dx dy dz mode s"
| "handler now Focus s = handleWindowFocus now s"
| "handler now Blur s = handleWindowBlur now s"
| "handler now (VisibilityChange hid vstate) s = handleVisibilityChange now hid vstate s"
| "handler now (TouchStart ts) s = handleTouchStart now ts s"
| "handler now (TouchMove ts) s = handleTouchMove now ts s"
| "handler now (TouchEnd n) s = handleTouchEnd now n s"

text \<open>
  The host delivers an event to the tracker only while a listener for its type is
  registered; otherwise the tracker's code does not run.
\<close>

definition deliver :: "int \<Rightarrow> host_event \<Rightarrow> tracker \<Rightarrow> tracker" where
  "deliver now ev s = (if type_of_event ev \<in> listeners s then handler now ev s else s)"

subsection \<open>Session identity, start and stop\<close>

text \<open>
  \<open>generateSessionId\<close> reads the stored identifier and creates one only when there is
  none; \<open>rnd\<close> is the random suffix.
\<close>

definition generateSessionId :: "int \<Rightarrow> string \<Rightarrow> tracker \<Rightarrow> string \<times> tracker" where
  "generateSessionId now rnd s =
     (if truthy_str (localStorage s) then (the (localStorage s), s)
      else (let sid = ''sc_'' @ show_int now @ ''_'' @ rnd
            in (sid, s\<lparr>localStorage := Some sid\<rparr>)))"

definition collectDeviceFingerprint :: "fingerprint \<Rightarrow> tracker \<Rightarrow> tracker" where
  "collectDeviceFingerprint fp s = s\<lparr>deviceFingerprint := Some fp\<rparr>"

definition addEventListener :: "event_type \<Rightarrow> tracker \<Rightarrow> tracker" where
  "addEventListener t s = s\<lparr>listeners := insert t (listeners s)\<rparr>"

definition removeEventListener :: "event_type \<Rightarrow> tracker \<Rightarrow> tracker" where
  "removeEventListener t s = s\<lparr>listeners := listeners s - {t}\<rparr>"

definition setupEventListeners :: "tracker \<Rightarrow> tracker" where
  "setupEventListeners s =
     fold addEventListener
       [mousemove, click, mousedown, mouseup, keydown, keyup, scroll, wheel, focus, blur,
        visibilitychange, touchstart, touchmove, touchend] s"

definition setInterval :: "tracker \<Rightarrow> nat \<times> tracker" where
  "setInterval s =
     (nextInterval s,
      s\<lparr>intervals := nextInterval s # intervals s, nextInterval := nextInterval s + 1\<rparr>)"

definition clearInterval :: "nat \<Rightarrow> tracker \<Rightarrow> tracker" where
  "clearInterval h s = s\<lparr>intervals := removeAll h (intervals s)\<rparr>"

definition startDataCollection :: "tracker \<Rightarrow> tracker" where
  "startDataCollection s =
     (case setInterval s of (h, s') \<Rightarrow> s'\<lparr>dataCollectionTimer := Some h\<rparr>)"

text \<open>\<open>behavioralData.sessionId = providedSessionId || generateSessionId()\<close>.\<close>

definition assignSessionId :: "string option \<Rightarrow> int \<Rightarrow> string \<Rightarrow> tracker \<Rightarrow> tracker" where
  "assignSessionId providedSessionId now rnd s =
     (if truthy_str providedSessionId then s\<lparr>sessionId := providedSessionId\<rparr>
      else (case generateSessionId now rnd s of (sid, s1) \<Rightarrow> s1\<lparr>sessionId := Some sid\<rparr>))"

definition init :: "string option \<Rightarrow> int \<Rightarrow> string \<Rightarrow> fingerprint \<Rightarrow> tracker \<Rightarrow> tracker" where
  "init providedSessionId now rnd fp s =
     (if isTracking s then s
      else
        (startDataCollection
           (setupEventListeners
              (collectDeviceFingerprint fp (assignSessionId providedSessionId now rnd s))))
        \<lparr>isTracking := True\<rparr>)"

definition truthy_nat :: "nat option \<Rightarrow> bool" where
  "truthy_nat v = (case v of None \<Rightarrow> False | Some h \<Rightarrow> h \<noteq> 0)"

text \<open>The first block of \<open>stop\<close>: the timer is cleared if there is one.\<close>

definition clearTimer :: "tracker \<Rightarrow> tracker" where
  "clearTimer s =
     (if truthy_nat (dataCollectionTimer s)
      then (clearInterval (the (dataCollectionTimer s)) s)\<lparr>dataCollectionTimer := None\<rparr>
      else s)"

definition stop :: "tracker \<Rightarrow> tracker" where
  "stop s =
     (if \<not> isTracking s then s
      else
        (fold removeEventListener
           [mousemove, click, mousedown, mouseup, keydown, keyup, scroll, wheel,
            focus, blur, visibilitychange, touchstart, touchmove, touchend]
           (clearTimer s))
        \<lparr>isTracking := False\<rparr>)"

subsection \<open>Promises and the network\<close>

text \<open>
  A settled promise, and the two chaining operations: \<open>.then(f)\<close> runs \<open>f\<close> on a
  fulfilled value and passes a rejection on; \<open>.catch(g)\<close> runs \<open>g\<close> on a rejection and
  passes a value on. A handler that throws rejects the promise it returns, so a handler
  is a function to a settled promise. \<open>'st\<close> is what the handlers change.
\<close>

datatype 'a settled = Fulfilled 'a | Rejected string

definition then_do ::
  "('a \<Rightarrow> 'st \<Rightarrow> 'b settled \<times> 'st) \<Rightarrow> 'a settled \<times> 'st \<Rightarrow> 'b settled \<times> 'st" where
  "then_do f p =
     (case p of (Fulfilled v, st) \<Rightarrow> f v st | (Rejected e, st) \<Rightarrow> (Rejected e, st))"

definition catch_do ::
  "(string \<Rightarrow> 'st \<Rightarrow> 'a settled \<times> 'st) \<Rightarrow> 'a settled \<times> 'st \<Rightarrow> 'a settled \<times> 'st" where
  "catch_do g p =
     (case p of (Fulfilled v, st) \<Rightarrow> (Fulfilled v, st) | (Rejected e, st) \<Rightarrow> g e st)"

text \<open>
  What a \<open>fetch\<close> comes to: a transport failure with its message, or a response.
  \<open>json\<close> is what \<open>response.json()\<close> gives: the decoded body, or the message of the
  error when the body is not JSON.
\<close>

record response =
  status :: nat
  statusText :: string
  json :: "string + jsvalue"

datatype fetch_outcome = NetworkError string | Responded response

definition ok :: "response \<Rightarrow> bool" where
  "ok r = (200 \<le> status r \<and> status r \<le> 299)"

definition fetch :: "fetch_outcome \<Rightarrow> 'st \<Rightarrow> response settled \<times> 'st" where
  "fetch out st =
     (case out of NetworkError m \<Rightarrow> (Rejected m, st) | Responded r \<Rightarrow> (Fulfilled r, st))"

text \<open>
  The first \<open>.then\<close> handler, the same in \<open>sendBehavioralData\<close> and in \<open>detectBot\<close>:
  throw on a response that is not ok, else decode the body.
\<close>

definition check_response :: "response \<Rightarrow> 'st \<Rightarrow> jsvalue settled \<times> 'st" where
  "check_response r st =
     (if \<not> ok r
      then (Rejected (''HTTP '' @ decimal (status r) @ '': '' @ statusText r), st)
      else (case json r of Inl m \<Rightarrow> (Rejected m, st) | Inr v \<Rightarrow> (Fulfilled v, st)))"

subsection \<open>The periodic flush\<close>

record flush_payload =
  p_sessionId :: string
  p_mouseMovements :: "mouse_entry list"
  p_clickPatterns :: "click_entry list"
  p_keystrokePatterns :: "key_entry list"
  p_scrollPatterns :: "scroll_entry list"
  p_deviceFingerprint :: "fingerprint option"
  p_timestamp :: int

record detection_payload = flush_payload +
  p_page_url :: string
  p_action_type :: string

text \<open>
  \<open>sendBehavioralData\<close> up to its \<open>fetch\<close>: the request it issues, if any. It changes
  nothing in the tracker.
\<close>

definition sendBehavioralData :: "int \<Rightarrow> tracker \<Rightarrow> flush_payload option" where
  "sendBehavioralData now s =
     (if \<not> truthy_str (sessionId s) \<or> \<not> isTracking s then None
      else Some
        \<lparr>p_sessionId = the (sessionId s),
         p_mouseMovements = slice_neg maxMouseEvents (mouseMovements s),
         p_clickPatterns = slice_neg maxClickEvents (clickPatterns s),
         p_keystrokePatterns = slice_neg maxKeystrokeEvents (keystrokePatterns s),
         p_scrollPatterns = slice_neg maxScrollEvents (scrollPatterns s),
         p_deviceFingerprint = deviceFingerprint s,
         p_timestamp = now\<rparr>)"

text \<open>The second \<open>.then\<close> handler and the \<open>.catch\<close> handler of the flush.\<close>

definition flush_success :: "jsvalue \<Rightarrow> tracker \<Rightarrow> unit settled \<times> tracker" where
  "flush_success d s =
     (Fulfilled (),
      s\<lparr>mouseMovements := slice_neg 10 (mouseMovements s),
        clickPatterns := slice_neg 10 (clickPatterns s),
        keystrokePatterns := slice_neg 10 (keystrokePatterns s),
        scrollPatterns := slice_neg 10 (scrollPatterns s)\<rparr>)"

definition flush_failure :: "string \<Rightarrow> tracker \<Rightarrow> unit settled \<times> tracker" where
  "flush_failure e s = (Fulfilled (), s)"

text \<open>
  The tracker after the request of a flush has settled with \<open>out\<close>; \<open>s\<close> is the tracker
  at that moment, which may have recorded events since the request was issued.
\<close>

definition flushSettled :: "fetch_outcome \<Rightarrow> tracker \<Rightarrow> tracker" where
  "flushSettled out s =
     snd (catch_do flush_failure (then_do flush_success (then_do check_response (fetch out s))))"

text \<open>
  The host fires the interval timer \<open>h\<close>: \<open>sendBehavioralData\<close> runs if the timer is
  still running.
\<close>

definition timerFires :: "nat \<Rightarrow> int \<Rightarrow> tracker \<Rightarrow> flush_payload option" where
  "timerFires h now s = (if h \<in> set (intervals s) then sendBehavioralData now s else None)"

subsection \<open>The on-demand classification request\<close>

text \<open>
  A continuation returns or throws. \<open>None\<close> stands for an argument that is not a
  function. \<open>call\<close> appends the argument to the list of invocations.
\<close>

datatype callback_result = Returns | Throws string

type_synonym callback = "jsvalue \<Rightarrow> callback_result"

definition call :: "callback \<Rightarrow> jsvalue \<Rightarrow> jsvalue list \<Rightarrow> unit settled \<times> jsvalue list" where
  "call cb v seen =
     (case cb v of Returns \<Rightarrow> (Fulfilled (), seen @ [v]) | Throws e \<Rightarrow> (Rejected e, seen @ [v]))"

definition error_descriptor :: "string \<Rightarrow> jsvalue" where
  "error_descriptor m = JObj [(''error'', JStr m)]"

definition detect_success ::
  "callback option \<Rightarrow> jsvalue \<Rightarrow> jsvalue list \<Rightarrow> unit settled \<times> jsvalue list" where
  "detect_success cbo d seen =
     (case cbo of Some cb \<Rightarrow> call cb d seen | None \<Rightarrow> (Fulfilled (), seen))"

definition detect_failure ::
  "callback option \<Rightarrow> string \<Rightarrow> jsvalue list \<Rightarrow> unit settled \<times> jsvalue list" where
  "detect_failure cbo e seen =
     (case cbo of Some cb \<Rightarrow> call cb (error_descriptor e) seen | None \<Rightarrow> (Fulfilled (), seen))"

text \<open>
  What one call of \<open>detectBot\<close> does: the arguments its continuation was invoked with,
  in order; the requests it issued; the exception it threw to its caller, and the
  rejection left unhandled at the end of the promise chain.
\<close>

record detection =
  calls :: "jsvalue list"
  requests :: "detection_payload list"
  thrown :: "string option"
  unhandled :: "string option"

definition rejection :: "'a settled \<Rightarrow> string option" where
  "rejection p = (case p of Fulfilled _ \<Rightarrow> None | Rejected e \<Rightarrow> Some e)"

definition detectBot ::
  "callback option \<Rightarrow> int \<Rightarrow> string \<Rightarrow> fetch_outcome \<Rightarrow> tracker \<Rightarrow> detection" where
  "detectBot cbo now pathname out s =
     (if \<not> truthy_str (sessionId s)
      then
        (case cbo of
           None \<Rightarrow>
             \<lparr>calls = [], requests = [], thrown = Some ''callback is not a function'',
              unhandled = None\<rparr>
         | Some cb \<Rightarrow>
             (case call cb (error_descriptor ''No session data available'') [] of
                (r, seen) \<Rightarrow>
                  \<lparr>calls = seen, requests = [], thrown = rejection r, unhandled = None\<rparr>))
      else
        (let detectionPayload =
               \<lparr>p_sessionId = the (sessionId s),
                p_mouseMovements = slice_neg maxMouseEvents (mouseMovements s),
                p_clickPatterns = slice_neg maxClickEvents (clickPatterns s),
                p_keystrokePatterns = slice_neg maxKeystrokeEvents (keystrokePatterns s),
                p_scrollPatterns = slice_neg maxScrollEvents (scrollPatterns s),
                p_deviceFingerprint = deviceFingerprint s,
                p_timestamp = now,
                p_page_url = pathname,
                p_action_type = ''general''\<rparr>
         in (case catch_do (detect_failure cbo)
                    (then_do (detect_success cbo) (then_do check_response (fetch out []))) of
               (r, seen) \<Rightarrow>
                 \<lparr>calls = seen, requests = [detectionPayload], thrown = None,
                  unhandled = rejection r\<rparr>)))"

subsection \<open>Runs of the tracker\<close>

text \<open>
  What can happen to the tracker, as the host schedules it: a call of \<open>init\<close> or
  \<open>stop\<close>, an event, and the settling of a flush request.
\<close>

datatype action =
    Init "string option" int string fingerprint
  | Stop
  | Deliver int host_event
  | FlushSettled fetch_outcome

fun step :: "action \<Rightarrow> tracker \<Rightarrow> tracker" where
  "step (Init p now rnd fp) s = init p now rnd fp s"
| "step Stop s = stop s"
| "step (Deliver now ev) s = deliver now ev s"
| "step (FlushSettled out) s = flushSettled out s"

definition run :: "action list \<Rightarrow> tracker \<Rightarrow> tracker" where
  "run acts s = fold step acts s"

text \<open>Events delivered one after the other, each with the time of its handling.\<close>

fun deliver_all :: "(int \<times> host_event) list \<Rightarrow> tracker \<Rightarrow> tracker" where
  "deliver_all [] s = s"
| "deliver_all ((now, ev) # evs) s = deliver_all evs (deliver now ev s)"

subsection \<open>Notions used in the properties\<close>

text \<open>A request that failed: a transport error, or a response whose status is not 2xx.\<close>

definition failed :: "fetch_outcome \<Rightarrow> bool" where
  "failed out = (case out of NetworkError m \<Rightarrow> True | Responded r \<Rightarrow> \<not> ok r)"

text \<open>
  A payload built from the tracker \<open>s\<close> holds, for each category, no more entries than
  the category's capacity, and they are the last entries of the window.
\<close>

definition within_capacity :: "tracker \<Rightarrow> 'a flush_payload_scheme \<Rightarrow> bool" where
  "within_capacity s p =
     (length (p_mouseMovements p) \<le> maxMouseEvents \<and>
      length (p_clickPatterns p) \<le> maxClickEvents \<and>
      length (p_keystrokePatterns p) \<le> maxKeystrokeEvents \<and>
      length (p_scrollPatterns p) \<le> maxScrollEvents \<and>
      p_mouseMovements p = drop (length (mouseMovements s) - maxMouseEvents) (mouseMovements s) \<and>
      p_clickPatterns p = drop (length (clickPatterns s) - maxClickEvents) (clickPatterns s) \<and>
      p_keystrokePatterns p =
        drop (length (keystrokePatterns s) - maxKeystrokeEvents) (keystrokePatterns s) \<and>
      p_scrollPatterns p = drop (length (scrollPatterns s) - maxScrollEvents) (scrollPatterns s))"

subsection \<open>Concrete inputs\<close>

definition example_fingerprint :: fingerprint where
  "example_fingerprint =
     \<lparr>userAgent = ''Mozilla/5.0'', screenResolution = ''1920x1080'', timezone = ''UTC'',
      language = ''en-US'', platform = ''Linux x86_64'', cookieEnabled = True,
      doNotTrack = None, onlineStatus = True, touchSupport = False\<rparr>"

definition example_target :: dom_target where
  "example_target = \<lparr>node = 7, tagName = ''BUTTON'', elemId = ''go'', className = []\<rparr>"

text \<open>The tracker as \<open>autoInit\<close> leaves it on a first visit.\<close>

definition started :: tracker where
  "started = init None 1700 ''k3x9q'' example_fingerprint (initial 1600)"

text \<open>Fifty-one wheel events in a row, as one turn of a mouse wheel produces.\<close>

definition wheels_51 :: tracker where
  "wheels_51 = run (replicate 51 (Deliver 1800 (Wheel 0 120 0 0))) started"

definition ok_response :: response where
  "ok_response = \<lparr>status = 200, statusText = ''OK'', json = Inr (JObj [(''status'', JStr ''ok'')])\<rparr>"

definition server_error :: response where
  "server_error = \<lparr>status = 500, statusText = ''Internal Server Error'', json = Inl ''Unexpected token''\<rparr>"

definition no_content :: response where
  "no_content = \<lparr>status = 204, statusText = ''No Content'', json = Inl ''Unexpected end of JSON input''\<rparr>"

text \<open>
  A continuation that handles an error descriptor but throws while it renders any
  other answer.
\<close>

definition failing_render :: callback where
  "failing_render v =
     (case v of
        JObj ((k, x) # rest) \<Rightarrow>
          (if k = ''error'' then Returns else Throws ''Cannot read properties of undefined'')
      | _ \<Rightarrow> Throws ''Cannot read properties of undefined'')"

text \<open>The tracker after one pointer move at the origin.\<close>

definition first_move :: tracker where
  "first_move = handleMouseMove 1000 0 0 example_target (initial 900)"

section \<open>Properties\<close>

subsection \<open>Arrays\<close>

lemma slice_neg_pos: "0 < n \<Longrightarrow> slice_neg n xs = drop (length xs - n) xs"
  by (simp add: slice_neg_def)

lemma length_slice_neg: "0 < n \<Longrightarrow> length (slice_neg n xs) = min n (length xs)"
  by (simp add: slice_neg_def)

lemma last_shift_snoc: "xs \<noteq> [] \<Longrightarrow> last (shift (xs @ [x])) = x"
  by (cases xs) (simp_all add: shift_def)

lemma last_push_bounded:
  "0 < n \<Longrightarrow> last (if length (xs @ [x]) > n then shift (xs @ [x]) else xs @ [x]) = x"
  by (cases "xs = []") (simp_all add: last_shift_snoc)

subsection \<open>Handlers, listeners and counts\<close>

lemma handler_frame:
  "isTracking (handler now ev s) = isTracking s \<and> listeners (handler now ev s) = listeners s"
  by (cases ev)
     (simp_all add: handleMouseMove_def handleClick_def handleMouseDown_def handleMouseUp_def
        handleKeyDown_def handleKeyUp_def handleScroll_def handleWheel_def
        handleWindowFocus_def handleWindowBlur_def handleVisibilityChange_def
        handleTouchStart_def handleTouchMove_def handleTouchEnd_def Let_def
        split: list.splits)

lemma handleMouseMove_counts:
  "mouseMovementTotal (handleMouseMove now x y tgt s) = mouseMovementTotal s + 1"
  by (simp add: handleMouseMove_def Let_def)

lemma handleMouseMove_length:
  "length (mouseMovements s) \<le> maxMouseEvents \<Longrightarrow>
     length (mouseMovements (handleMouseMove now x y tgt s)) =
       min (length (mouseMovements s) + 1) maxMouseEvents"
  by (simp add: handleMouseMove_def Let_def shift_def maxMouseEvents_def)

text \<open>
  The category of pointer moves has one handler, which counts and evicts: after any
  moves the counter has grown by their number and the window is as long as the capacity
  allows.
\<close>

lemma mouse_moves_counted_and_bounded:
  "mousemove \<in> listeners s \<Longrightarrow> length (mouseMovements s) \<le> maxMouseEvents \<Longrightarrow>
     mouseMovementTotal (deliver_all (map (\<lambda>(t, x, y, tgt). (t, MouseMove x y tgt)) ms) s) =
       mouseMovementTotal s + length ms \<and>
     length (mouseMovements (deliver_all (map (\<lambda>(t, x, y, tgt). (t, MouseMove x y tgt)) ms) s)) =
       min (length (mouseMovements s) + length ms) maxMouseEvents"
proof (induction ms arbitrary: s)
  case Nil
  then show ?case by simp
next
  case (Cons m ms)
  obtain t x y tgt where m: "m = (t, x, y, tgt)"
    by (cases m) auto
  let ?s = "handleMouseMove t x y tgt s"
  have d: "deliver t (MouseMove x y tgt) s = ?s"
    using Cons.prems(1) by (simp add: deliver_def)
  have l: "mousemove \<in> listeners ?s"
    using Cons.prems(1) handler_frame [of t "MouseMove x y tgt" s] by simp
  have n: "length (mouseMovements ?s) = min (length (mouseMovements s) + 1) maxMouseEvents"
    using Cons.prems(2) by (rule handleMouseMove_length)
  then have b: "length (mouseMovements ?s) \<le> maxMouseEvents"
    by simp
  from Cons.IH [OF l b] show ?case
    using Cons.prems(2) by (simp add: m d n handleMouseMove_counts min_def)
qed

subsection \<open>A concrete run\<close>

lemma wheels_51_facts:
  "length (scrollPatterns wheels_51) = 51 \<and> scrollPatternTotal wheels_51 = 51 \<and>
   intervals wheels_51 = [1] \<and> isTracking wheels_51 \<and>
   sessionId wheels_51 = Some ''sc_1700_k3x9q''"
  by code_simp

subsection \<open>What capture does to windows and counters\<close>

text \<open>
  C1. The claim is that after N captured events of a category the counter is N and the
  window holds the last min(N, capacity) of them, so that the counter is never below the
  window's length. The code does not keep this: \<open>handleWheel\<close> pushes without the
  capacity check that \<open>handleScroll\<close> makes, so fifty-one wheel events leave a scroll
  window of fifty-one entries against a capacity of fifty; and \<open>handleMouseDown\<close>
  pushes into the click window without the increment that \<open>handleClick\<close> makes, so
  one press leaves a click window of length one with a counter of zero.
\<close>

theorem windows_outgrow_capacity_and_counters:
  "length (scrollPatterns wheels_51) = 51 \<and>
   scrollPatternTotal wheels_51 = 51 \<and>
   min 51 maxScrollEvents = 50 \<and>
   length (clickPatterns (deliver 1800 (MouseDown 10 20 0 example_target) started)) = 1 \<and>
   clickPatternTotal (deliver 1800 (MouseDown 10 20 0 example_target) started) = 0"
proof -
  have "length (clickPatterns (deliver 1800 (MouseDown 10 20 0 example_target) started)) = 1"
    by code_simp
  moreover have "clickPatternTotal (deliver 1800 (MouseDown 10 20 0 example_target) started) = 0"
    by code_simp
  ultimately show ?thesis by (simp add: wheels_51_facts maxScrollEvents_def)
qed

subsection \<open>The continuation of the classification request\<close>

lemma detectBot_once_when_callback_returns:
  assumes "truthy_str (sessionId s)" and "\<And>v. cb v = Returns"
  shows "\<exists>v. calls (detectBot (Some cb) now pathname out s) = [v]"
  using assms
  by (simp add: detectBot_def Let_def fetch_def then_do_def catch_do_def check_response_def
        detect_success_def detect_failure_def call_def
        split: fetch_outcome.splits sum.splits prod.splits)

text \<open>
  C2. The claim is that \<open>detectBot\<close> invokes its continuation exactly once whatever the
  outcome. The \<open>.catch\<close> handler is chained after the \<open>.then\<close> handler that invokes the
  continuation with the decoded body, so it also catches what the continuation throws
  there, and invokes it again: on a 200 response, a continuation that throws on the
  answer is invoked twice, first with the body and then with an error descriptor.
\<close>

theorem continuation_invoked_twice:
  "calls (detectBot (Some failing_render) 6800 ''/task'' (Responded ok_response) started) =
     [JObj [(''status'', JStr ''ok'')],
      JObj [(''error'', JStr ''Cannot read properties of undefined'')]]"
  by code_simp

subsection \<open>The flush, by outcome\<close>

lemma flushSettled_failed: "failed out \<Longrightarrow> flushSettled out s = s"
  by (cases out)
     (simp_all add: failed_def flushSettled_def fetch_def then_do_def catch_do_def
        check_response_def flush_failure_def)

lemma flushSettled_undecodable:
  "ok r \<Longrightarrow> json r = Inl m \<Longrightarrow> flushSettled (Responded r) s = s"
  by (simp add: flushSettled_def fetch_def then_do_def catch_do_def
        check_response_def flush_failure_def)

lemma flushSettled_success:
  "ok r \<Longrightarrow> json r = Inr d \<Longrightarrow> flushSettled (Responded r) s =
      s\<lparr>mouseMovements := slice_neg 10 (mouseMovements s),
        clickPatterns := slice_neg 10 (clickPatterns s),
        keystrokePatterns := slice_neg 10 (keystrokePatterns s),
        scrollPatterns := slice_neg 10 (scrollPatterns s)\<rparr>"
  by (simp add: flushSettled_def fetch_def then_do_def catch_do_def
        check_response_def flush_success_def)

lemma flushSettled_cases:
  "flushSettled out s = s \<or>
   flushSettled out s =
      s\<lparr>mouseMovements := slice_neg 10 (mouseMovements s),
        clickPatterns := slice_neg 10 (clickPatterns s),
        keystrokePatterns := slice_neg 10 (keystrokePatterns s),
        scrollPatterns := slice_neg 10 (scrollPatterns s)\<rparr>"
  by (simp add: flushSettled_def fetch_def then_do_def catch_do_def check_response_def
        flush_failure_def flush_success_def split: fetch_outcome.splits sum.splits)

text \<open>
  C3. When the request of a periodic flush fails, by a transport error or by a response
  whose status is not 2xx, the four windows and the four total counters are as they
  were, and so are the running timers and the tracking flag: a firing of the timer
  after the failure issues the request it would have issued without it.
\<close>

theorem failed_flush_changes_nothing:
  "failed out \<Longrightarrow>
     mouseMovements (flushSettled out s) = mouseMovements s \<and>
     clickPatterns (flushSettled out s) = clickPatterns s \<and>
     keystrokePatterns (flushSettled out s) = keystrokePatterns s \<and>
     scrollPatterns (flushSettled out s) = scrollPatterns s \<and>
     mouseMovementTotal (flushSettled out s) = mouseMovementTotal s \<and>
     clickPatternTotal (flushSettled out s) = clickPatternTotal s \<and>
     keystrokePatternTotal (flushSettled out s) = keystrokePatternTotal s \<and>
     scrollPatternTotal (flushSettled out s) = scrollPatternTotal s \<and>
     intervals (flushSettled out s) = intervals s \<and>
     dataCollectionTimer (flushSettled out s) = dataCollectionTimer s \<and>
     isTracking (flushSettled out s) = isTracking s \<and>
     timerFires h now (flushSettled out s) = timerFires h now s"
  by (simp add: flushSettled_failed)

theorem failed_flush_changes_nothing_witness:
  "failed (Responded server_error) \<and>
   length (scrollPatterns (flushSettled (Responded server_error) wheels_51)) = 51 \<and>
   scrollPatternTotal (flushSettled (Responded server_error) wheels_51) = 51 \<and>
   intervals (flushSettled (Responded server_error) wheels_51) = [1] \<and>
   timerFires 1 6700 (flushSettled (Responded server_error) wheels_51) =
     sendBehavioralData 6700 wheels_51 \<and>
   sendBehavioralData 6700 wheels_51 \<noteq> None"
proof -
  have f: "failed (Responded server_error)"
    by (simp add: failed_def server_error_def ok_def)
  note kept = failed_flush_changes_nothing [OF f, of wheels_51 1 6700]
  have t: "timerFires 1 6700 wheels_51 = sendBehavioralData 6700 wheels_51"
    by (simp add: timerFires_def wheels_51_facts)
  have r: "sendBehavioralData 6700 wheels_51 \<noteq> None"
    by (simp add: sendBehavioralData_def wheels_51_facts truthy_str_def)
  from f kept t r show ?thesis by (simp add: wheels_51_facts)
qed

text \<open>
  C4, as amended. When the response of a flush has a 2xx status and its body decodes
  as JSON, each of the four windows becomes its last ten entries, in order (its length
  becomes the minimum of ten and its length before), and no total counter changes.
\<close>

theorem successful_flush_trims:
  "ok r \<Longrightarrow> json r = Inr d \<Longrightarrow>
     mouseMovements (flushSettled (Responded r) s) =
       drop (length (mouseMovements s) - 10) (mouseMovements s) \<and>
     clickPatterns (flushSettled (Responded r) s) =
       drop (length (clickPatterns s) - 10) (clickPatterns s) \<and>
     keystrokePatterns (flushSettled (Responded r) s) =
       drop (length (keystrokePatterns s) - 10) (keystrokePatterns s) \<and>
     scrollPatterns (flushSettled (Responded r) s) =
       drop (length (scrollPatterns s) - 10) (scrollPatterns s) \<and>
     length (mouseMovements (flushSettled (Responded r) s)) = min 10 (length (mouseMovements s)) \<and>
     length (clickPatterns (flushSettled (Responded r) s)) = min 10 (length (clickPatterns s)) \<and>
     length (keystrokePatterns (flushSettled (Responded r) s)) =
       min 10 (length (keystrokePatterns s)) \<and>
     length (scrollPatterns (flushSettled (Responded r) s)) = min 10 (length (scrollPatterns s)) \<and>
     mouseMovementTotal (flushSettled (Responded r) s) = mouseMovementTotal s \<and>
     clickPatternTotal (flushSettled (Responded r) s) = clickPatternTotal s \<and>
     keystrokePatternTotal (flushSettled (Responded r) s) = keystrokePatternTotal s \<and>
     scrollPatternTotal (flushSettled (Responded r) s) = scrollPatternTotal s"
  by (auto simp: flushSettled_success slice_neg_pos)

theorem successful_flush_trims_witness:
  "ok ok_response \<and> json ok_response = Inr (JObj [(''status'', JStr ''ok'')]) \<and>
   length (scrollPatterns wheels_51) = 51 \<and>
   length (scrollPatterns (flushSettled (Responded ok_response) wheels_51)) = 10 \<and>
   scrollPatternTotal (flushSettled (Responded ok_response) wheels_51) = 51"
proof -
  have o: "ok ok_response"
    by (simp add: ok_def ok_response_def)
  have j: "json ok_response = Inr (JObj [(''status'', JStr ''ok'')])"
    by (simp add: ok_response_def)
  from successful_flush_trims [OF o j, of wheels_51] o j show ?thesis
    by (simp add: wheels_51_facts)
qed

text \<open>
  Against C4 as stated: a 204 response is a 2xx response, but it has no body to
  decode, \<open>response.json()\<close> rejects, and the handler that trims is skipped. The scroll
  window of fifty-one entries keeps its fifty-one entries.
\<close>

theorem flush_not_trimmed_on_undecodable_body:
  "ok no_content \<and>
   length (scrollPatterns wheels_51) = 51 \<and>
   length (scrollPatterns (flushSettled (Responded no_content) wheels_51)) = 51"
proof -
  have o: "ok no_content"
    by (simp add: ok_def no_content_def)
  have j: "json no_content = Inl ''Unexpected end of JSON input''"
    by (simp add: no_content_def)
  show ?thesis
    by (simp add: o flushSettled_undecodable [OF o j] wheels_51_facts)
qed

subsection \<open>The classification request without a session\<close>

text \<open>
  C5. Called while there is no session identifier, with a continuation, \<open>detectBot\<close>
  invokes the continuation exactly once, with the error descriptor
  \<open>{error: 'No session data available'}\<close>, and issues no request, whatever the network
  would have answered.
\<close>

theorem detectBot_without_session:
  "sessionId s = None \<Longrightarrow>
     calls (detectBot (Some cb) now pathname out s) =
       [error_descriptor ''No session data available''] \<and>
     requests (detectBot (Some cb) now pathname out s) = []"
  by (simp add: detectBot_def truthy_str_def call_def split: callback_result.splits)

theorem detectBot_without_session_witness:
  "sessionId (initial 1600) = None \<and>
   calls (detectBot (Some (\<lambda>v. Returns)) 1650 ''/login'' (Responded ok_response)
            (initial 1600)) =
     [JObj [(''error'', JStr ''No session data available'')]] \<and>
   requests (detectBot (Some (\<lambda>v. Returns)) 1650 ''/login'' (Responded ok_response)
               (initial 1600)) = []"
  using detectBot_without_session
          [of "initial 1600" "\<lambda>v. Returns" 1650 "''/login''" "Responded ok_response"]
  by (simp add: initial_def error_descriptor_def)

subsection \<open>Durations of presses and keystrokes\<close>

lemma handleMouseUp_last:
  "last (clickPatterns (handleMouseUp now x y b tgt s)) =
     MouseUpEntry x y now b
       (if truthy_int (map_of (mouseDownTimes s) (node tgt))
        then Some (now - the (map_of (mouseDownTimes s) (node tgt))) else None)"
  by (simp add: handleMouseUp_def Let_def)

lemma handleMouseUp_clears:
  "map_of (mouseDownTimes (handleMouseUp now x y b tgt s)) (node tgt) =
     (if truthy_int (map_of (mouseDownTimes s) (node tgt)) then None
      else map_of (mouseDownTimes s) (node tgt))"
  by (simp add: handleMouseUp_def Let_def delete_conv)

lemma handleMouseDown_marks:
  "map_of (mouseDownTimes (handleMouseDown now x y b tgt s)) n =
     (if n = node tgt then Some now else map_of (mouseDownTimes s) n)"
  by (simp add: handleMouseDown_def update_conv)

lemma handleKeyDown_last:
  "last (keystrokePatterns (handleKeyDown now k code ctrl alt sh meta s)) =
     KeyDownEntry (anonymize k) code now ctrl alt sh meta"
  by (simp add: handleKeyDown_def)

lemma handleKeyUp_last:
  "last (keystrokePatterns (handleKeyUp now k code s)) =
     KeyUpEntry (anonymize k) code now
       (if truthy_int (keystrokeStartTime s) then now - the (keystrokeStartTime s) else 0)"
  unfolding handleKeyUp_def Let_def
  by (simp add: last_push_bounded maxKeystrokeEvents_def del: length_append)




subsection \<open>Pointer velocity\<close>

lemma handleMouseMove_last:
  "lastMouseEvent (handleMouseMove now x y tgt s) =
     Some (last (mouseMovements (handleMouseMove now x y tgt s)))"
  unfolding handleMouseMove_def Let_def
  by (simp add: last_push_bounded maxMouseEvents_def del: length_append)



subsection \<open>After \<open>stop\<close>\<close>

lemma flushSettled_frame:
  "isTracking (flushSettled out s) = isTracking s \<and>
   listeners (flushSettled out s) = listeners s"
  using flushSettled_cases [of out s] by auto

lemma init_tracking: "isTracking (init p now rnd fp s)"
  by (simp add: init_def)

lemma stop_listeners: "isTracking s \<Longrightarrow> listeners (stop s) = {}"
proof -
  assume t: "isTracking s"
  have "x \<notin> listeners (stop s)" for x
    using t by (cases x) (simp_all add: stop_def removeEventListener_def)
  then show ?thesis by blast
qed

lemma stop_not_tracking: "\<not> isTracking s \<Longrightarrow> stop s = s"
  by (simp add: stop_def)

text \<open>Listeners are registered only while the tracker is tracking.\<close>

lemma step_inv:
  "isTracking s \<or> listeners s = {} \<Longrightarrow> isTracking (step a s) \<or> listeners (step a s) = {}"
proof (cases a)
  case (Init p now rnd fp)
  then show ?thesis by (simp add: init_tracking)
next
  case Stop
  assume "isTracking s \<or> listeners s = {}"
  with Stop show ?thesis
    by (cases "isTracking s") (simp_all add: stop_listeners stop_not_tracking)
next
  case (Deliver now ev)
  assume "isTracking s \<or> listeners s = {}"
  with Deliver show ?thesis by (simp add: deliver_def handler_frame)
next
  case (FlushSettled out)
  assume "isTracking s \<or> listeners s = {}"
  with FlushSettled show ?thesis by (simp add: flushSettled_frame)
qed

lemma run_inv:
  "isTracking s \<or> listeners s = {} \<Longrightarrow>
     isTracking (run acts s) \<or> listeners (run acts s) = {}"
  unfolding run_def
  by (induction acts arbitrary: s) (simp_all add: step_inv)

lemma listeners_after_stop:
  "isTracking s \<or> listeners s = {} \<Longrightarrow> listeners (stop s) = {}"
  by (cases "isTracking s") (auto simp: stop_listeners stop_not_tracking)

lemma deliver_all_inert: "listeners s = {} \<Longrightarrow> deliver_all evs s = s"
  by (induction evs arbitrary: s) (auto simp: deliver_def)

text \<open>
  C8. Whatever happened to the tracker before (calls of \<open>init\<close> and \<open>stop\<close>, events,
  flushes that settled), once \<open>stop\<close> has returned no event that the host delivers
  changes anything in the tracker: every window and every counter is as \<open>stop\<close> left
  it, after any number of events of any type.
\<close>

theorem inert_after_stop:
  "deliver_all evs (stop (run acts (initial t0))) = stop (run acts (initial t0))"
proof -
  have "isTracking (initial t0) \<or> listeners (initial t0) = {}"
    by (simp add: initial_def)
  then have "isTracking (run acts (initial t0)) \<or> listeners (run acts (initial t0)) = {}"
    by (rule run_inv)
  then have "listeners (stop (run acts (initial t0))) = {}"
    by (rule listeners_after_stop)
  then show ?thesis by (rule deliver_all_inert)
qed

theorem inert_after_stop_witness:
  "deliver_all [(7000, Wheel 0 120 0 0), (7001, KeyDown ''a'' 65 False False False False)]
     (stop (run [Init None 1700 ''k3x9q'' example_fingerprint,
                 Deliver 1800 (Wheel 0 120 0 0)] (initial 1600))) =
   stop (run [Init None 1700 ''k3x9q'' example_fingerprint,
              Deliver 1800 (Wheel 0 120 0 0)] (initial 1600)) \<and>
   scrollPatternTotal
     (stop (run [Init None 1700 ''k3x9q'' example_fingerprint,
                 Deliver 1800 (Wheel 0 120 0 0)] (initial 1600))) = 1"
proof -
  have "scrollPatternTotal
     (stop (run [Init None 1700 ''k3x9q'' example_fingerprint,
                 Deliver 1800 (Wheel 0 120 0 0)] (initial 1600))) = 1"
    by code_simp
  with inert_after_stop
         [of "[(7000, Wheel 0 120 0 0), (7001, KeyDown ''a'' 65 False False False False)]"
             "[Init None 1700 ''k3x9q'' example_fingerprint, Deliver 1800 (Wheel 0 120 0 0)]"
             1600]
  show ?thesis by simp
qed

subsection \<open>The key policy\<close>

lemma length_anonymize: "length (anonymize k) \<noteq> 1"
  by (simp add: anonymize_def)



subsection \<open>Payloads\<close>

lemma sendBehavioralData_within:
  "sendBehavioralData now s = Some p \<Longrightarrow> within_capacity s p"
  by (auto simp: sendBehavioralData_def within_capacity_def slice_neg_def maxMouseEvents_def
        maxClickEvents_def maxKeystrokeEvents_def maxScrollEvents_def split: if_splits)

lemma detectBot_requests:
  "truthy_str (sessionId s) \<Longrightarrow>
     requests (detectBot cbo now pathname out s) =
       [\<lparr>p_sessionId = the (sessionId s),
         p_mouseMovements = slice_neg maxMouseEvents (mouseMovements s),
         p_clickPatterns = slice_neg maxClickEvents (clickPatterns s),
         p_keystrokePatterns = slice_neg maxKeystrokeEvents (keystrokePatterns s),
         p_scrollPatterns = slice_neg maxScrollEvents (scrollPatterns s),
         p_deviceFingerprint = deviceFingerprint s,
         p_timestamp = now,
         p_page_url = pathname,
         p_action_type = ''general''\<rparr>]"
  by (simp add: detectBot_def Let_def split: prod.splits)

lemma detectBot_no_requests:
  "\<not> truthy_str (sessionId s) \<Longrightarrow> requests (detectBot cbo now pathname out s) = []"
  by (simp add: detectBot_def split: option.splits prod.splits)

lemma detectBot_within:
  "q \<in> set (requests (detectBot cbo now pathname out s)) \<Longrightarrow> within_capacity s q"
  by (cases "truthy_str (sessionId s)")
     (auto simp: detectBot_requests detectBot_no_requests within_capacity_def slice_neg_def
        maxMouseEvents_def maxClickEvents_def maxKeystrokeEvents_def maxScrollEvents_def)

text \<open>
  C10. Every payload that the periodic flush or the classification request builds
  holds, for each category, at most the category's capacity of entries (100 mouse
  movements, 50 click patterns, 100 keystroke patterns, 50 scroll patterns), and they
  are the last entries of the window, also when the window has grown beyond its
  capacity.
\<close>

theorem payloads_within_capacity:
  "(sendBehavioralData now s = Some p \<longrightarrow> within_capacity s p) \<and>
   (q \<in> set (requests (detectBot cbo now' pathname out s)) \<longrightarrow> within_capacity s q)"
  using sendBehavioralData_within detectBot_within by blast

theorem payloads_within_capacity_witness:
  "sendBehavioralData 6700 wheels_51 \<noteq> None \<and>
   within_capacity wheels_51 (the (sendBehavioralData 6700 wheels_51)) \<and>
   requests (detectBot None 6800 ''/task'' (Responded ok_response) wheels_51) \<noteq> [] \<and>
   within_capacity wheels_51
     (hd (requests (detectBot None 6800 ''/task'' (Responded ok_response) wheels_51))) \<and>
   length (scrollPatterns wheels_51) = 51 \<and>
   length (p_scrollPatterns (the (sendBehavioralData 6700 wheels_51))) = 50 \<and>
   length (p_scrollPatterns
     (hd (requests (detectBot None 6800 ''/task'' (Responded ok_response) wheels_51)))) = 50"
proof -
  have t: "truthy_str (sessionId wheels_51)"
    by (simp add: wheels_51_facts truthy_str_def)
  have a: "sendBehavioralData 6700 wheels_51 \<noteq> None"
    by (simp add: sendBehavioralData_def wheels_51_facts truthy_str_def)
  then have a': "sendBehavioralData 6700 wheels_51 = Some (the (sendBehavioralData 6700 wheels_51))"
    by simp
  have b: "requests (detectBot None 6800 ''/task'' (Responded ok_response) wheels_51) \<noteq> []"
    by (simp add: detectBot_requests [OF t])
  then have b': "hd (requests (detectBot None 6800 ''/task'' (Responded ok_response) wheels_51))
      \<in> set (requests (detectBot None 6800 ''/task'' (Responded ok_response) wheels_51))"
    by simp
  have c: "length (p_scrollPatterns (the (sendBehavioralData 6700 wheels_51))) = 50"
    by (simp add: sendBehavioralData_def wheels_51_facts truthy_str_def slice_neg_def
          maxScrollEvents_def)
  have d: "length (p_scrollPatterns
     (hd (requests (detectBot None 6800 ''/task'' (Responded ok_response) wheels_51)))) = 50"
    by (simp add: detectBot_requests [OF t] wheels_51_facts slice_neg_def maxScrollEvents_def)
  from payloads_within_capacity
         [of 6700 wheels_51 "the (sendBehavioralData 6700 wheels_51)"
             "hd (requests (detectBot None 6800 ''/task'' (Responded ok_response) wheels_51))"
             None 6800 "''/task''" "Responded ok_response"]
       a a' b b' c d
  show ?thesis by (simp add: wheels_51_facts)
qed

end
